theory Spec2Isabelle
  imports Main
begin

section \<open>Data model\<close>

text \<open>
  JSON values, as the decoder of \<^verbatim>\<open>encoding/json\<close> reads them. A number is its
  literal, as the decimal \<open>m \<times> 10\<^sup>e\<close> it denotes: \<open>JNumber m e\<close>.
\<close>

datatype json =
    JNull
  | JBool bool
  | JNumber int int
  | JString string
  | JArray "json list"
  | JObject "(string \<times> json) list"

text \<open>
  \<^verbatim>\<open>type Resource interface{}\<close>: an opaque domain value, possibly the nil interface.
  A non-nil value carries the name of its dynamic type and its contents.
\<close>

datatype Resource = NilResource | Resource string json

text \<open>\<^verbatim>\<open>type Payload map[string]interface{}\<close>. A nil map reads like the empty one.\<close>

type_synonym Payload = "string \<rightharpoonup> json"

text \<open>
  Go's \<^verbatim>\<open>error\<close> values met in the pipeline: the two failures of the body decoder, the
  failure of the serializer lookup, the error kind of the un-overridden stubs of package
  \<^verbatim>\<open>rest\<close>, and whatever else a caller-supplied operation returns. The nil error is
  \<open>None\<close> of \<open>error option\<close>.
\<close>

datatype error =
    SyntaxError string
  | UnmarshalTypeError string
  | UnsupportedFormat string
  | NotImplemented string
  | HandlerError string

text \<open>A Go call either returns or panics with a message.\<close>

datatype 'a outcome = Returns 'a | Panics string

text \<open>What \<^verbatim>\<open>ctx.SetResult\<close> stores: one resource, or the slice of a list read.\<close>

datatype result = Single Resource | Listing "Resource list"

text \<open>
  Modelled from the spec: package \<^verbatim>\<open>go-rest/server/context\<close> is not among the sources.
  A \<^verbatim>\<open>RequestContext\<close> is an immutable value with the request-derived inputs and the
  response in progress; the fields carry the names of its accessor methods, and every
  \<^verbatim>\<open>Set*\<close> returns a new value.
\<close>

record RequestContext =
  Version :: string
  Limit :: int
  Cursor :: string
  ResourceId :: string
  ResponseFormat :: string
  Result :: result
  Error :: "error option"
  Status :: int

definition SetResult :: "RequestContext \<Rightarrow> result \<Rightarrow> RequestContext" where
  "SetResult ctx r = ctx\<lparr>Result := r\<rparr>"

definition SetCursor :: "RequestContext \<Rightarrow> string \<Rightarrow> RequestContext" where
  "SetCursor ctx c = ctx\<lparr>Cursor := c\<rparr>"

definition SetError :: "RequestContext \<Rightarrow> error option \<Rightarrow> RequestContext" where
  "SetError ctx e = ctx\<lparr>Error := e\<rparr>"

definition SetStatus :: "RequestContext \<Rightarrow> int \<Rightarrow> RequestContext" where
  "SetStatus ctx s = ctx\<lparr>Status := s\<rparr>"

text \<open>
  Modelled from the spec: \<^verbatim>\<open>ctx.NextURL()\<close> is not among the sources. It yields the
  next-page indicator when the context carries a cursor, and fails otherwise; the
  dispatcher drops the failure.
\<close>

definition NextURL :: "RequestContext \<Rightarrow> string \<times> error option" where
  "NextURL ctx =
     (if Cursor ctx = [] then ([], Some (HandlerError ''no cursor''))
      else (Cursor ctx, None))"

text \<open>The status codes of \<^verbatim>\<open>net/http\<close> that the handlers name.\<close>

definition StatusOK :: int where "StatusOK = 200"
definition StatusCreated :: int where "StatusCreated = 201"
definition StatusInternalServerError :: int where "StatusInternalServerError = 500"
definition StatusNotImplemented :: int where "StatusNotImplemented = 501"

section \<open>Decoding the request body\<close>

text \<open>
  The request body as the decoder of \<^verbatim>\<open>encoding/json\<close> sees it: either no JSON value
  can be read from it (empty or malformed input, with the decoder's message), or its
  first JSON value.
\<close>

datatype requestBody = Malformed string | JsonValue json

text \<open>
  The decoder stores the members of a JSON object into the map in their order, so a
  repeated key keeps its last value.
\<close>

fun insertMembers :: "Payload \<Rightarrow> (string \<times> json) list \<Rightarrow> Payload" where
  "insertMembers m [] = m"
| "insertMembers m ((k, v) # kvs) = insertMembers (m(k \<mapsto> v)) kvs"

text \<open>
  The scanner of \<^verbatim>\<open>encoding/json\<close> counts the arrays and objects that are open, and
  refuses a value that opens more than \<^verbatim>\<open>maxNestingDepth\<close> of them at once.
\<close>

definition maxNestingDepth :: nat where "maxNestingDepth = 10000"

fun depth :: "json \<Rightarrow> nat"
  and depthElements :: "json list \<Rightarrow> nat"
  and depthMembers :: "(string \<times> json) list \<Rightarrow> nat" where
  "depth JNull = 0"
| "depth (JBool b) = 0"
| "depth (JNumber m e) = 0"
| "depth (JString s) = 0"
| "depth (JArray vs) = Suc (depthElements vs)"
| "depth (JObject kvs) = Suc (depthMembers kvs)"
| "depthElements [] = 0"
| "depthElements (v # vs) = max (depth v) (depthElements vs)"
| "depthMembers [] = 0"
| "depthMembers ((k, v) # kvs) = max (depth v) (depthMembers kvs)"

text \<open>
  A number stored into an \<^verbatim>\<open>interface{}\<close> is converted by
  \<^verbatim>\<open>strconv.ParseFloat(s, 64)\<close>, which fails when the literal rounds (to nearest, ties
  to even) beyond the largest \<^verbatim>\<open>float64\<close>, \<open>2\<^sup>1\<^sup>0\<^sup>2\<^sup>4 - 2\<^sup>9\<^sup>7\<^sup>1\<close>: that is, when
  its magnitude is at least \<open>2\<^sup>1\<^sup>0\<^sup>2\<^sup>4 - 2\<^sup>9\<^sup>7\<^sup>0\<close>. A literal too small to represent
  becomes zero and is no error.
\<close>

definition float64Overflow :: "int \<Rightarrow> int \<Rightarrow> bool" where
  "float64Overflow m e =
     (if 0 \<le> e then 2 ^ 1024 - 2 ^ 970 \<le> \<bar>m\<bar> * 10 ^ nat e
      else (2 ^ 1024 - 2 ^ 970) * 10 ^ nat (- e) \<le> \<bar>m\<bar>)"

text \<open>Whether every number of a value, at any depth, converts.\<close>

fun numbersFit :: "json \<Rightarrow> bool"
  and numbersFitElements :: "json list \<Rightarrow> bool"
  and numbersFitMembers :: "(string \<times> json) list \<Rightarrow> bool" where
  "numbersFit JNull = True"
| "numbersFit (JBool b) = True"
| "numbersFit (JNumber m e) = (\<not> float64Overflow m e)"
| "numbersFit (JString s) = True"
| "numbersFit (JArray vs) = numbersFitElements vs"
| "numbersFit (JObject kvs) = numbersFitMembers kvs"
| "numbersFitElements [] = True"
| "numbersFitElements (v # vs) = (numbersFit v \<and> numbersFitElements vs)"
| "numbersFitMembers [] = True"
| "numbersFitMembers ((k, v) # kvs) = (numbersFit v \<and> numbersFitMembers kvs)"

text \<open>
  \<^verbatim>\<open>var data map[string]interface{}; decoder.Decode(&data)\<close>, by the rules of
  \<^verbatim>\<open>encoding/json\<close>. The scanner reads the value first and fails on one nested too
  deep. Then an object fills the map, unless one of its numbers does not convert, which
  is an \<^verbatim>\<open>UnmarshalTypeError\<close>; \<^verbatim>\<open>null\<close> leaves the map nil and is no error; every
  other value is an \<^verbatim>\<open>UnmarshalTypeError\<close> naming its kind.
\<close>

fun Decode :: "requestBody \<Rightarrow> error + Payload" where
  "Decode (Malformed msg) = Inl (SyntaxError msg)"
| "Decode (JsonValue v) =
     (if maxNestingDepth < depth v then Inl (SyntaxError ''exceeded max depth'')
      else case v of
             JObject kvs \<Rightarrow>
               if numbersFit v then Inr (insertMembers Map.empty kvs)
               else Inl (UnmarshalTypeError ''number'')
           | JNull \<Rightarrow> Inr Map.empty
           | JBool b \<Rightarrow> Inl (UnmarshalTypeError ''bool'')
           | JNumber m e \<Rightarrow> Inl (UnmarshalTypeError ''number'')
           | JString s \<Rightarrow> Inl (UnmarshalTypeError ''string'')
           | JArray vs \<Rightarrow> Inl (UnmarshalTypeError ''array''))"

section \<open>Response dispatch (package server)\<close>

text \<open>
  Modelled from the spec: the serializers are not among the sources. A serializer is a
  capability selected by format name that implements "write success" and "write error";
  \<^verbatim>\<open>jsonSerializer\<close> is the one the dispatcher names itself.
\<close>

datatype serializer = jsonSerializer | namedSerializer string

text \<open>
  Modelled from the spec: \<^verbatim>\<open>newSuccessResponse\<close> is not among the sources. A success
  body holds the result and the next-page indicator.
\<close>

record successResponse =
  data :: result
  nextURL :: string

definition newSuccessResponse :: "result \<Rightarrow> string \<Rightarrow> successResponse" where
  "newSuccessResponse r n = \<lparr>data = r, nextURL = n\<rparr>"

text \<open>One write to the HTTP response: who serialized it, what, and at which status.\<close>

datatype response =
    ErrorResponse serializer error int
  | SuccessResponse serializer successResponse int

text \<open>The \<^verbatim>\<open>http.ResponseWriter\<close> is the sequence of writes made to it so far.\<close>

type_synonym ResponseWriter = "response list"

text \<open>
  Modelled from the spec: the two methods of a serializer are not among the sources. Each
  writes one response body, at the status it is given.
\<close>

definition sendErrorResponse ::
  "serializer \<Rightarrow> ResponseWriter \<Rightarrow> error \<Rightarrow> int \<Rightarrow> ResponseWriter" where
  "sendErrorResponse s w e status = w @ [ErrorResponse s e status]"

definition sendSuccessResponse ::
  "serializer \<Rightarrow> ResponseWriter \<Rightarrow> successResponse \<Rightarrow> int \<Rightarrow> ResponseWriter" where
  "sendSuccessResponse s w r status = w @ [SuccessResponse s r status]"

text \<open>
  \<^verbatim>\<open>RestApi\<close>, embedded in \<^verbatim>\<open>requestHandler\<close>. Its method \<^verbatim>\<open>responseSerializer\<close> is
  not among the sources and is taken as it comes: a lookup by format name that returns
  the registered serializer, or the error of a format that has none.
\<close>

record RestApi =
  responseSerializer :: "string \<Rightarrow> error + serializer"

text \<open>
  \<^verbatim>\<open>requestHandler.sendResponse\<close>, in its two halves. The first resolves the
  serializer and, on the fallback branch, reassigns the three locals \<^verbatim>\<open>serializer\<close>,
  \<^verbatim>\<open>status\<close> and \<^verbatim>\<open>requestError\<close> together.
\<close>

definition resolveSerializer :: "RestApi \<Rightarrow> RequestContext \<Rightarrow> serializer \<times> int \<times> error option" where
  "resolveSerializer h ctx =
     (let status = Status ctx;
          requestError = Error ctx
      in case responseSerializer h (ResponseFormat ctx) of
           Inl err \<Rightarrow> (jsonSerializer, StatusNotImplemented, Some err)
         | Inr serializer \<Rightarrow> (serializer, status, requestError))"

text \<open>The second half writes the error response and stops, or writes the success response.\<close>

definition sendResponse :: "RestApi \<Rightarrow> ResponseWriter \<Rightarrow> RequestContext \<Rightarrow> ResponseWriter" where
  "sendResponse h w ctx =
     (let result = Result ctx;
          (serializer, status, requestError) = resolveSerializer h ctx
      in case requestError of
           Some e \<Rightarrow>
             sendErrorResponse serializer w e
               (if status < 400 then StatusInternalServerError else status)
         | None \<Rightarrow>
             (let (nextURL, _) = NextURL ctx
              in sendSuccessResponse serializer w (newSuccessResponse result nextURL) status))"

text \<open>Which of the two kinds a written response is.\<close>

definition isErrorResponse :: "response \<Rightarrow> bool" where
  "isErrorResponse r =
     (case r of ErrorResponse s e status \<Rightarrow> True | SuccessResponse s b status \<Rightarrow> False)"

section \<open>The verb handlers (package server)\<close>

text \<open>
  A caller-supplied operation runs in a world \<open>'s\<close> of its own that it may change; it
  returns its Go results with the new world, or panics. The context built by
  \<^verbatim>\<open>context.NewContext(nil, r)\<close> and the request body are the inputs of a handler.
  Each handler is split at its last statement: \<open>*_context\<close> is the context it hands to
  \<^verbatim>\<open>sendResponse\<close>.
\<close>

type_synonym 's createFunc =
  "RequestContext \<Rightarrow> Payload \<Rightarrow> string \<Rightarrow> 's \<Rightarrow> ((Resource \<times> error option) \<times> 's) outcome"

type_synonym 's readListFunc =
  "RequestContext \<Rightarrow> int \<Rightarrow> string \<Rightarrow> 's \<Rightarrow> ((Resource list \<times> string \<times> error option) \<times> 's) outcome"

type_synonym 's readFunc =
  "RequestContext \<Rightarrow> string \<Rightarrow> string \<Rightarrow> 's \<Rightarrow> ((Resource \<times> error option) \<times> 's) outcome"

type_synonym 's updateFunc =
  "RequestContext \<Rightarrow> string \<Rightarrow> Payload \<Rightarrow> string \<Rightarrow> 's \<Rightarrow> ((Resource \<times> error option) \<times> 's) outcome"

definition handleCreate_context ::
  "'s createFunc \<Rightarrow> RequestContext \<Rightarrow> requestBody \<Rightarrow> 's \<Rightarrow> (RequestContext \<times> 's) outcome" where
  "handleCreate_context createFunc ctx body s =
     (case Decode body of
        Inl err \<Rightarrow>
          Returns (SetStatus (SetError ctx (Some err)) StatusInternalServerError, s)
      | Inr payload \<Rightarrow>
          (case createFunc ctx payload (Version ctx) s of
             Panics msg \<Rightarrow> Panics msg
           | Returns ((resource, err), s') \<Rightarrow>
               (let ctx = SetResult ctx (Single resource);
                    ctx = SetStatus ctx StatusCreated;
                    ctx = (if err \<noteq> None then SetError ctx err else ctx)
                in Returns (ctx, s'))))"

definition handleReadList_context ::
  "'s readListFunc \<Rightarrow> RequestContext \<Rightarrow> 's \<Rightarrow> (RequestContext \<times> 's) outcome" where
  "handleReadList_context readFunc ctx s =
     (case readFunc ctx (Limit ctx) (Version ctx) s of
        Panics msg \<Rightarrow> Panics msg
      | Returns ((resources, cursor, err), s') \<Rightarrow>
          (let ctx = SetResult ctx (Listing resources);
               ctx = SetCursor ctx cursor;
               ctx = SetError ctx err;
               ctx = SetStatus ctx StatusOK
           in Returns (ctx, s')))"

definition handleRead_context ::
  "'s readFunc \<Rightarrow> RequestContext \<Rightarrow> 's \<Rightarrow> (RequestContext \<times> 's) outcome" where
  "handleRead_context readFunc ctx s =
     (case readFunc ctx (ResourceId ctx) (Version ctx) s of
        Panics msg \<Rightarrow> Panics msg
      | Returns ((resource, err), s') \<Rightarrow>
          (let ctx = SetResult ctx (Single resource);
               ctx = SetError ctx err;
               ctx = SetStatus ctx StatusOK
           in Returns (ctx, s')))"

definition handleUpdate_context ::
  "'s updateFunc \<Rightarrow> RequestContext \<Rightarrow> requestBody \<Rightarrow> 's \<Rightarrow> (RequestContext \<times> 's) outcome" where
  "handleUpdate_context updateFunc ctx body s =
     (case Decode body of
        Inl err \<Rightarrow>
          Returns (SetStatus (SetError ctx (Some err)) StatusInternalServerError, s)
      | Inr payload \<Rightarrow>
          (case updateFunc ctx (ResourceId ctx) payload (Version ctx) s of
             Panics msg \<Rightarrow> Panics msg
           | Returns ((resource, err), s') \<Rightarrow>
               (let ctx = SetResult ctx (Single resource);
                    ctx = SetError ctx err;
                    ctx = SetStatus ctx StatusOK
                in Returns (ctx, s'))))"

definition handleDelete_context ::
  "'s readFunc \<Rightarrow> RequestContext \<Rightarrow> 's \<Rightarrow> (RequestContext \<times> 's) outcome" where
  "handleDelete_context deleteFunc ctx s =
     (case deleteFunc ctx (ResourceId ctx) (Version ctx) s of
        Panics msg \<Rightarrow> Panics msg
      | Returns ((resource, err), s') \<Rightarrow>
          (let ctx = SetResult ctx (Single resource);
               ctx = SetError ctx err;
               ctx = SetStatus ctx StatusOK
           in Returns (ctx, s')))"

text \<open>The last statement of every handler: \<^verbatim>\<open>h.sendResponse(w, ctx)\<close>.\<close>

definition dispatch ::
  "RestApi \<Rightarrow> ResponseWriter \<Rightarrow> (RequestContext \<times> 's) outcome \<Rightarrow> (ResponseWriter \<times> 's) outcome" where
  "dispatch h w r =
     (case r of
        Panics msg \<Rightarrow> Panics msg
      | Returns (ctx, s') \<Rightarrow> Returns (sendResponse h w ctx, s'))"

definition handleCreate ::
  "RestApi \<Rightarrow> 's createFunc \<Rightarrow> ResponseWriter \<Rightarrow> RequestContext \<Rightarrow> requestBody \<Rightarrow> 's
     \<Rightarrow> (ResponseWriter \<times> 's) outcome" where
  "handleCreate h createFunc w ctx body s =
     dispatch h w (handleCreate_context createFunc ctx body s)"

definition handleReadList ::
  "RestApi \<Rightarrow> 's readListFunc \<Rightarrow> ResponseWriter \<Rightarrow> RequestContext \<Rightarrow> 's
     \<Rightarrow> (ResponseWriter \<times> 's) outcome" where
  "handleReadList h readFunc w ctx s = dispatch h w (handleReadList_context readFunc ctx s)"

definition handleRead ::
  "RestApi \<Rightarrow> 's readFunc \<Rightarrow> ResponseWriter \<Rightarrow> RequestContext \<Rightarrow> 's
     \<Rightarrow> (ResponseWriter \<times> 's) outcome" where
  "handleRead h readFunc w ctx s = dispatch h w (handleRead_context readFunc ctx s)"

definition handleUpdate ::
  "RestApi \<Rightarrow> 's updateFunc \<Rightarrow> ResponseWriter \<Rightarrow> RequestContext \<Rightarrow> requestBody \<Rightarrow> 's
     \<Rightarrow> (ResponseWriter \<times> 's) outcome" where
  "handleUpdate h updateFunc w ctx body s =
     dispatch h w (handleUpdate_context updateFunc ctx body s)"

definition handleDelete ::
  "RestApi \<Rightarrow> 's readFunc \<Rightarrow> ResponseWriter \<Rightarrow> RequestContext \<Rightarrow> 's
     \<Rightarrow> (ResponseWriter \<times> 's) outcome" where
  "handleDelete h deleteFunc w ctx s = dispatch h w (handleDelete_context deleteFunc ctx s)"

section \<open>The base handlers\<close>

text \<open>
  \<^verbatim>\<open>BaseResourceHandler\<close> of package \<^verbatim>\<open>server\<close>: every stub panics.
\<close>

definition server_ResourceName :: "string outcome" where
  "server_ResourceName = Panics ''ResourceName not implemented''"

definition server_CreateResource ::
  "RequestContext \<Rightarrow> Payload \<Rightarrow> string \<Rightarrow> (Resource \<times> error option) outcome" where
  "server_CreateResource ctx payload version = Panics ''CreateResource not implemented''"

definition server_ReadResourceList ::
  "RequestContext \<Rightarrow> int \<Rightarrow> string \<Rightarrow> (Resource list \<times> string \<times> error option) outcome" where
  "server_ReadResourceList ctx limit version = Panics ''ReadResourceList not implemented''"

definition server_ReadResource ::
  "RequestContext \<Rightarrow> string \<Rightarrow> string \<Rightarrow> (Resource \<times> error option) outcome" where
  "server_ReadResource ctx ident version = Panics ''ReadResource not implemented''"

definition server_UpdateResource ::
  "RequestContext \<Rightarrow> string \<Rightarrow> Payload \<Rightarrow> string \<Rightarrow> (Resource \<times> error option) outcome" where
  "server_UpdateResource ctx ident payload version = Panics ''UpdateResource not implemented''"

definition server_DeleteResource ::
  "RequestContext \<Rightarrow> string \<Rightarrow> string \<Rightarrow> (Resource \<times> error option) outcome" where
  "server_DeleteResource ctx ident version = Panics ''DeleteResource not implemented''"

text \<open>
  \<^verbatim>\<open>BaseResourceHandler\<close> of package \<^verbatim>\<open>rest\<close>: every CRUD stub returns a nil result
  and \<^verbatim>\<open>NotImplemented(msg)\<close>. Modelled from the spec: the constructor
  \<^verbatim>\<open>NotImplemented\<close> is not among the sources; it builds the error of the "not
  implemented" kind, here the constructor \<open>NotImplemented\<close> of \<open>error\<close>.
\<close>

definition rest_CreateResource ::
  "RequestContext \<Rightarrow> Payload \<Rightarrow> string \<Rightarrow> (Resource \<times> error option) outcome" where
  "rest_CreateResource ctx payload version =
     Returns (NilResource, Some (NotImplemented ''CreateResource is not implemented''))"

definition rest_ReadResourceList ::
  "RequestContext \<Rightarrow> int \<Rightarrow> string \<Rightarrow> string
     \<Rightarrow> (Resource list \<times> string \<times> error option) outcome" where
  "rest_ReadResourceList ctx limit cursor version =
     Returns ([], [], Some (NotImplemented ''ReadResourceList not implemented''))"

definition rest_ReadResource ::
  "RequestContext \<Rightarrow> string \<Rightarrow> string \<Rightarrow> (Resource \<times> error option) outcome" where
  "rest_ReadResource ctx ident version =
     Returns (NilResource, Some (NotImplemented ''ReadResource not implemented''))"

definition rest_UpdateResource ::
  "RequestContext \<Rightarrow> string \<Rightarrow> Payload \<Rightarrow> string \<Rightarrow> (Resource \<times> error option) outcome" where
  "rest_UpdateResource ctx ident payload version =
     Returns (NilResource, Some (NotImplemented ''UpdateResource not implemented''))"

definition rest_DeleteResource ::
  "RequestContext \<Rightarrow> string \<Rightarrow> string \<Rightarrow> (Resource \<times> error option) outcome" where
  "rest_DeleteResource ctx ident version =
     Returns (NilResource, Some (NotImplemented ''DeleteResource not implemented''))"

section \<open>The handler proxy (package rest)\<close>

text \<open>
  Modelled from the spec: the types \<^verbatim>\<open>Rule\<close> and \<^verbatim>\<open>Rules\<close> are not among the sources.
  A rule is bound to one resource type, its \<^verbatim>\<open>resourceType\<close> (a \<^verbatim>\<open>reflect.Type\<close>, nil
  until set); what else it holds is opaque to the proxy, and stands here as the name of
  the field it is about. \<^verbatim>\<open>Rules\<close> is a slice of references to rules, so that an
  assignment to \<^verbatim>\<open>rule.resourceType\<close> in a loop over the slice reaches the rule the
  slice holds (the spec: the proxy "stamps every returned rule").
\<close>

record Rule =
  Field :: string
  resourceType :: "string option"

text \<open>
  The getters of a wrapped \<^verbatim>\<open>ResourceHandler\<close> that the proxy consults, each with the
  value it returns.
\<close>

record ResourceHandler =
  ResourceName :: string
  CreateURI :: string
  ReadURI :: string
  ReadListURI :: string
  UpdateURI :: string
  DeleteURI :: string
  EmptyResource :: Resource
  Rules :: "Rule list"

text \<open>The getters of \<^verbatim>\<open>BaseResourceHandler\<close> of package \<^verbatim>\<open>rest\<close>.\<close>

definition BaseResourceHandler :: ResourceHandler where
  "BaseResourceHandler =
     \<lparr>ResourceName = [], CreateURI = [], ReadURI = [], ReadListURI = [], UpdateURI = [],
      DeleteURI = [], EmptyResource = NilResource, Rules = []\<rparr>"

text \<open>\<^verbatim>\<open>reflect.TypeOf\<close>: the dynamic type of an interface value, nil for the nil interface.\<close>

fun reflect_TypeOf :: "Resource \<Rightarrow> string option" where
  "reflect_TypeOf NilResource = None"
| "reflect_TypeOf (Resource t c) = Some t"

text \<open>
  The route-parameter names \<^verbatim>\<open>versionKey\<close> and \<^verbatim>\<open>resourceIDKey\<close> are constants
  declared outside the sources; their values are read off the doc comments of the stubs
  (\<^verbatim>\<open>/api/v{version:[^/]+}/resourceName/{resource_id}\<close>).
\<close>

definition versionKey :: string where "versionKey = ''version''"
definition resourceIDKey :: string where "resourceIDKey = ''resource_id''"

text \<open>\<^verbatim>\<open>fmt.Sprintf\<close> at the two format strings of the proxy.\<close>

definition Sprintf_plural :: "string \<Rightarrow> string \<Rightarrow> string" where
  "Sprintf_plural v name = ''/api/v{'' @ v @ '':[^/]+}/'' @ name"

definition Sprintf_singular :: "string \<Rightarrow> string \<Rightarrow> string \<Rightarrow> string" where
  "Sprintf_singular v name ident = ''/api/v{'' @ v @ '':[^/]+}/'' @ name @ ''/{'' @ ident @ ''}''"

definition proxy_ResourceName :: "ResourceHandler \<Rightarrow> string outcome" where
  "proxy_ResourceName r =
     (let name = ResourceName r
      in if name = [] then Panics ''ResourceHandler must implement ResourceName()''
         else Returns name)"

text \<open>The loop of \<^verbatim>\<open>resourceHandlerProxy.Rules\<close> over the rules.\<close>

fun stampRules :: "ResourceHandler \<Rightarrow> Rule list \<Rightarrow> Rule list" where
  "stampRules r [] = []"
| "stampRules r (rule # rules) =
     rule\<lparr>resourceType := reflect_TypeOf (EmptyResource r)\<rparr> # stampRules r rules"

definition proxy_Rules :: "ResourceHandler \<Rightarrow> Rule list outcome" where
  "proxy_Rules r = (let rules = Rules r in Returns (stampRules r rules))"

definition proxy_CreateURI :: "ResourceHandler \<Rightarrow> string outcome" where
  "proxy_CreateURI r =
     (let url = CreateURI r
      in if url = [] then
           (case proxy_ResourceName r of
              Panics msg \<Rightarrow> Panics msg
            | Returns name \<Rightarrow> Returns (Sprintf_plural versionKey name))
         else Returns url)"

definition proxy_ReadURI :: "ResourceHandler \<Rightarrow> string outcome" where
  "proxy_ReadURI r =
     (let url = ReadURI r
      in if url = [] then
           (case proxy_ResourceName r of
              Panics msg \<Rightarrow> Panics msg
            | Returns name \<Rightarrow> Returns (Sprintf_singular versionKey name resourceIDKey))
         else Returns url)"

definition proxy_ReadListURI :: "ResourceHandler \<Rightarrow> string outcome" where
  "proxy_ReadListURI r =
     (let url = ReadListURI r
      in if url = [] then
           (case proxy_ResourceName r of
              Panics msg \<Rightarrow> Panics msg
            | Returns name \<Rightarrow> Returns (Sprintf_plural versionKey name))
         else Returns url)"

definition proxy_UpdateURI :: "ResourceHandler \<Rightarrow> string outcome" where
  "proxy_UpdateURI r =
     (let url = UpdateURI r
      in if url = [] then
           (case proxy_ResourceName r of
              Panics msg \<Rightarrow> Panics msg
            | Returns name \<Rightarrow> Returns (Sprintf_singular versionKey name resourceIDKey))
         else Returns url)"

text \<open>
  \<^verbatim>\<open>DeleteURI\<close> asks the wrapped handler for its name
  (\<^verbatim>\<open>r.ResourceHandler.ResourceName()\<close>), not the proxy.
\<close>

definition proxy_DeleteURI :: "ResourceHandler \<Rightarrow> string outcome" where
  "proxy_DeleteURI r =
     (let url = DeleteURI r
      in if url = [] then
           Returns (Sprintf_singular versionKey (ResourceName r) resourceIDKey)
         else Returns url)"

section \<open>Fixtures\<close>

text \<open>
  Operations that count their invocations in the world (a call-count probe): one that
  succeeds, and others that return \<^verbatim>\<open>(nil, someError)\<close>.
\<close>

definition boom :: error where
  "boom = HandlerError ''boom''"

definition okCreate :: "nat createFunc" where
  "okCreate ctx payload version n =
     Returns ((Resource ''Widget'' (JObject [(''id'', JString ''1'')]), None), Suc n)"

definition failingCreate :: "nat createFunc" where
  "failingCreate ctx payload version n =
     Returns ((NilResource, Some boom), Suc n)"

definition failingUpdate :: "nat updateFunc" where
  "failingUpdate ctx ident payload version n =
     Returns ((NilResource, Some boom), Suc n)"

definition failingRead :: "nat readFunc" where
  "failingRead ctx ident version n =
     Returns ((NilResource, Some boom), Suc n)"

definition failingReadList :: "nat readListFunc" where
  "failingReadList ctx limit version n =
     Returns (([], [], Some boom), Suc n)"

text \<open>
  The create stub of package \<^verbatim>\<open>server\<close> as the operation of a handler; it touches no
  world.
\<close>

definition stubCreate :: "nat createFunc" where
  "stubCreate ctx payload version n =
     (case server_CreateResource ctx payload version of
        Panics msg \<Rightarrow> Panics msg
      | Returns x \<Rightarrow> Returns (x, n))"

text \<open>A fresh context of a request for version 1, and the same asking for XML.\<close>

definition ctx0 :: RequestContext where
  "ctx0 =
     \<lparr>Version = ''1'', Limit = 100, Cursor = [], ResourceId = ''7'',
      ResponseFormat = ''json'', Result = Single NilResource, Error = None, Status = 0\<rparr>"

definition ctxXml :: RequestContext where
  "ctxXml = ctx0\<lparr>ResponseFormat := ''xml''\<rparr>"

text \<open>An API with the JSON serializer registered, and nothing else.\<close>

definition jsonOnly :: RestApi where
  "jsonOnly =
     \<lparr>responseSerializer =
        (\<lambda>format. if format = ''json'' then Inr jsonSerializer
                   else Inl (UnsupportedFormat format))\<rparr>"

text \<open>A handler with one rule, with and without a representative resource.\<close>

definition widgetRule :: Rule where
  "widgetRule = \<lparr>Field = ''Name'', resourceType = None\<rparr>"

definition widgetHandler :: ResourceHandler where
  "widgetHandler =
     BaseResourceHandler\<lparr>ResourceName := ''widgets'',
       EmptyResource := Resource ''Widget'' (JObject []), Rules := [widgetRule]\<rparr>"

definition untypedHandler :: ResourceHandler where
  "untypedHandler = widgetHandler\<lparr>EmptyResource := NilResource\<rparr>"

text \<open>A handler that sets every URI itself, and has no name.\<close>

definition customHandler :: ResourceHandler where
  "customHandler =
     BaseResourceHandler\<lparr>CreateURI := ''/things'', ReadURI := ''/things/{id}'',
       ReadListURI := ''/things/all'', UpdateURI := ''/things/{id}/edit'',
       DeleteURI := ''/things/{id}/remove''\<rparr>"

section \<open>Facts about the decoder\<close>

lemma Decode_empty_object: "Decode (JsonValue (JObject [])) = Inr Map.empty"
  by (simp add: maxNestingDepth_def)

lemma Decode_null: "Decode (JsonValue JNull) = Inr Map.empty"
  by simp

lemma Decode_empty_array: "Decode (JsonValue (JArray [])) = Inl (UnmarshalTypeError ''array'')"
  by (simp add: maxNestingDepth_def)

lemma Decode_not_object:
  "v \<noteq> JNull \<Longrightarrow> \<forall>kvs. v \<noteq> JObject kvs \<Longrightarrow> \<exists>e. Decode (JsonValue v) = Inl e"
  by (cases v) simp_all

text \<open>
  The body \<^verbatim>\<open>{"n":1e400}\<close> is an object and does not decode: its number is beyond
  \<^verbatim>\<open>float64\<close>. The body \<^verbatim>\<open>{"n":1e308}\<close> decodes.
\<close>

lemma Decode_number_out_of_range:
  "Decode (JsonValue (JObject [(''n'', JNumber 1 400)])) = Inl (UnmarshalTypeError ''number'')"
  by (simp add: maxNestingDepth_def float64Overflow_def)

lemma Decode_number_in_range:
  "Decode (JsonValue (JObject [(''n'', JNumber 1 308)])) = Inr [''n'' \<mapsto> JNumber 1 308]"
  by (simp add: maxNestingDepth_def float64Overflow_def)

section \<open>Facts about dispatch\<close>

lemmas http_status_defs =
  StatusOK_def StatusCreated_def StatusInternalServerError_def StatusNotImplemented_def

lemmas context_defs = SetResult_def SetCursor_def SetError_def SetStatus_def

lemma sendResponse_unregistered:
  "responseSerializer h (ResponseFormat ctx) = Inl err \<Longrightarrow>
   sendResponse h w ctx = w @ [ErrorResponse jsonSerializer err 501]"
  by (simp add: sendResponse_def resolveSerializer_def sendErrorResponse_def
      http_status_defs)

lemma sendResponse_error:
  "responseSerializer h (ResponseFormat ctx) = Inr ser \<Longrightarrow> Error ctx = Some e \<Longrightarrow>
   sendResponse h w ctx =
     w @ [ErrorResponse ser e (if Status ctx < 400 then 500 else Status ctx)]"
  by (simp add: sendResponse_def resolveSerializer_def sendErrorResponse_def
      http_status_defs)

lemma sendResponse_success:
  "responseSerializer h (ResponseFormat ctx) = Inr ser \<Longrightarrow> Error ctx = None \<Longrightarrow>
   sendResponse h w ctx =
     w @ [SuccessResponse ser (newSuccessResponse (Result ctx) (fst (NextURL ctx)))
            (Status ctx)]"
  by (simp add: sendResponse_def resolveSerializer_def sendSuccessResponse_def
      split: prod.splits)

section \<open>Facts about the verb handlers\<close>

lemma handleCreate_context_returned:
  "Decode body = Inr payload \<Longrightarrow>
   createFunc ctx payload (Version ctx) s = Returns ((resource, err), s') \<Longrightarrow>
   handleCreate_context createFunc ctx body s =
     Returns (ctx\<lparr>Result := Single resource, Status := 201,
                  Error := (if err \<noteq> None then err else Error ctx)\<rparr>, s')"
  by (simp add: handleCreate_context_def context_defs http_status_defs)

lemma handleUpdate_context_returned:
  "Decode body = Inr payload \<Longrightarrow>
   updateFunc ctx (ResourceId ctx) payload (Version ctx) s = Returns ((resource, err), s') \<Longrightarrow>
   handleUpdate_context updateFunc ctx body s =
     Returns (ctx\<lparr>Result := Single resource, Error := err, Status := 200\<rparr>, s')"
  by (simp add: handleUpdate_context_def context_defs http_status_defs)

lemma handleRead_context_returned:
  "readFunc ctx (ResourceId ctx) (Version ctx) s = Returns ((resource, err), s') \<Longrightarrow>
   handleRead_context readFunc ctx s =
     Returns (ctx\<lparr>Result := Single resource, Error := err, Status := 200\<rparr>, s')"
  by (simp add: handleRead_context_def context_defs http_status_defs)

lemma handleDelete_context_returned:
  "deleteFunc ctx (ResourceId ctx) (Version ctx) s = Returns ((resource, err), s') \<Longrightarrow>
   handleDelete_context deleteFunc ctx s =
     Returns (ctx\<lparr>Result := Single resource, Error := err, Status := 200\<rparr>, s')"
  by (simp add: handleDelete_context_def context_defs http_status_defs)

lemma handleReadList_context_returned:
  "readListFunc ctx (Limit ctx) (Version ctx) s = Returns ((resources, cursor, err), s') \<Longrightarrow>
   handleReadList_context readListFunc ctx s =
     Returns (ctx\<lparr>Result := Listing resources, Cursor := cursor, Error := err,
                  Status := 200\<rparr>, s')"
  by (simp add: handleReadList_context_def context_defs http_status_defs)

lemma decode_failure_create:
  "Decode body = Inl e \<Longrightarrow>
   handleCreate_context createFunc ctx body s =
     Returns (ctx\<lparr>Error := Some e, Status := 500\<rparr>, s)"
  by (simp add: handleCreate_context_def context_defs http_status_defs)

lemma decode_failure_update:
  "Decode body = Inl e \<Longrightarrow>
   handleUpdate_context updateFunc ctx body s =
     Returns (ctx\<lparr>Error := Some e, Status := 500\<rparr>, s)"
  by (simp add: handleUpdate_context_def context_defs http_status_defs)

text \<open>No handler touches the requested format.\<close>

lemma handleCreate_context_format:
  "handleCreate_context createFunc ctx body s = Returns (ctx', s') \<Longrightarrow>
   ResponseFormat ctx' = ResponseFormat ctx"
  by (auto simp: handleCreate_context_def context_defs Let_def
      split: sum.splits outcome.splits prod.splits if_splits)

lemma handleUpdate_context_format:
  "handleUpdate_context updateFunc ctx body s = Returns (ctx', s') \<Longrightarrow>
   ResponseFormat ctx' = ResponseFormat ctx"
  by (auto simp: handleUpdate_context_def context_defs Let_def
      split: sum.splits outcome.splits prod.splits)

lemma handleRead_context_format:
  "handleRead_context readFunc ctx s = Returns (ctx', s') \<Longrightarrow>
   ResponseFormat ctx' = ResponseFormat ctx"
  by (auto simp: handleRead_context_def context_defs Let_def split: outcome.splits prod.splits)

lemma handleDelete_context_format:
  "handleDelete_context deleteFunc ctx s = Returns (ctx', s') \<Longrightarrow>
   ResponseFormat ctx' = ResponseFormat ctx"
  by (auto simp: handleDelete_context_def context_defs Let_def split: outcome.splits prod.splits)

lemma handleReadList_context_format:
  "handleReadList_context readListFunc ctx s = Returns (ctx', s') \<Longrightarrow>
   ResponseFormat ctx' = ResponseFormat ctx"
  by (auto simp: handleReadList_context_def context_defs Let_def split: outcome.splits prod.splits)

lemma dispatch_unregistered:
  "responseSerializer h (ResponseFormat ctx') = Inl err \<Longrightarrow>
   dispatch h w (Returns (ctx', s')) = Returns (w @ [ErrorResponse jsonSerializer err 501], s')"
  by (simp add: dispatch_def sendResponse_unregistered)

section \<open>The claims\<close>

subsection \<open>C1: an error present at dispatch\<close>

text \<open>
  C1, as the code has it. When the lookup finds a serializer and the context carries an
  error, dispatch writes that error and nothing else (the success path is not taken),
  through that serializer, at the recorded status, forced to 500 when the recorded status
  is below 400. When the lookup finds none, dispatch writes the error of the lookup in
  place of whatever was recorded, through the JSON serializer, at 501. A create
  operation that returns \<^verbatim>\<open>(nil, someError)\<close> after a successful decode therefore ends
  in an error response: at status 500 with its own error when the requested format has
  a serializer, and at status 501 with the error of the lookup when it has none; never
  at 201.
\<close>

theorem C1_error_dispatch:
  "(responseSerializer h (ResponseFormat ctx) = Inr ser \<and> Error ctx = Some e \<longrightarrow>
      sendResponse h w ctx =
        w @ [ErrorResponse ser e (if Status ctx < 400 then 500 else Status ctx)])
   \<and> (responseSerializer h (ResponseFormat ctx) = Inl err \<longrightarrow>
      sendResponse h w ctx = w @ [ErrorResponse jsonSerializer err 501])
   \<and> (Decode body = Inr payload \<and>
        createFunc ctx payload (Version ctx) s = Returns ((resource, Some e'), s') \<longrightarrow>
      handleCreate h createFunc w ctx body s =
        Returns (w @ [case responseSerializer h (ResponseFormat ctx) of
                        Inr ser' \<Rightarrow> ErrorResponse ser' e' 500
                      | Inl err' \<Rightarrow> ErrorResponse jsonSerializer err' 501], s'))"
proof (intro conjI impI)
  assume "responseSerializer h (ResponseFormat ctx) = Inr ser \<and> Error ctx = Some e"
  then show "sendResponse h w ctx =
        w @ [ErrorResponse ser e (if Status ctx < 400 then 500 else Status ctx)]"
    by (simp add: sendResponse_error)
next
  assume "responseSerializer h (ResponseFormat ctx) = Inl err"
  then show "sendResponse h w ctx = w @ [ErrorResponse jsonSerializer err 501]"
    by (rule sendResponse_unregistered)
next
  assume a: "Decode body = Inr payload \<and>
        createFunc ctx payload (Version ctx) s = Returns ((resource, Some e'), s')"
  let ?ctx = "ctx\<lparr>Result := Single resource, Status := 201, Error := Some e'\<rparr>"
  from a have c: "handleCreate_context createFunc ctx body s = Returns (?ctx, s')"
    by (simp add: handleCreate_context_returned)
  show "handleCreate h createFunc w ctx body s =
        Returns (w @ [case responseSerializer h (ResponseFormat ctx) of
                        Inr ser' \<Rightarrow> ErrorResponse ser' e' 500
                      | Inl err' \<Rightarrow> ErrorResponse jsonSerializer err' 501], s')"
  proof (cases "responseSerializer h (ResponseFormat ctx)")
    case (Inl err')
    then have "responseSerializer h (ResponseFormat ?ctx) = Inl err'" by simp
    from sendResponse_unregistered [OF this] Inl c show ?thesis
      by (simp add: handleCreate_def dispatch_def)
  next
    case (Inr ser')
    then have "responseSerializer h (ResponseFormat ?ctx) = Inr ser'" by simp
    from sendResponse_error [OF this, of e' w] Inr c show ?thesis
      by (simp add: handleCreate_def dispatch_def)
  qed
qed

text \<open>
  The theorem with only JSON registered. A context asking for JSON with an error: at a
  recorded 201 the error is written at 500, at a recorded 404 it is written at 404. A
  context asking for XML with the same error at 404: the error of the lookup is written
  at 501. A create asking for JSON whose operation returns \<^verbatim>\<open>(nil, boom)\<close>: \<open>boom\<close> is
  written at 500.
\<close>

theorem C1_error_dispatch_witness:
  "responseSerializer jsonOnly (ResponseFormat ctx0) = Inr jsonSerializer
   \<and> sendResponse jsonOnly [] (ctx0\<lparr>Error := Some boom, Status := 201\<rparr>)
     = [ErrorResponse jsonSerializer boom 500]
   \<and> sendResponse jsonOnly [] (ctx0\<lparr>Error := Some boom, Status := 404\<rparr>)
     = [ErrorResponse jsonSerializer boom 404]
   \<and> responseSerializer jsonOnly (ResponseFormat ctxXml) = Inl (UnsupportedFormat ''xml'')
   \<and> sendResponse jsonOnly [] (ctxXml\<lparr>Error := Some boom, Status := 404\<rparr>)
     = [ErrorResponse jsonSerializer (UnsupportedFormat ''xml'') 501]
   \<and> Decode (JsonValue (JObject [])) = Inr Map.empty
   \<and> failingCreate ctx0 Map.empty (Version ctx0) 0 = Returns ((NilResource, Some boom), 1)
   \<and> handleCreate jsonOnly failingCreate [] ctx0 (JsonValue (JObject [])) 0
     = Returns ([ErrorResponse jsonSerializer boom 500], 1)"
proof -
  let ?c201 = "ctx0\<lparr>Error := Some boom, Status := 201\<rparr>"
  let ?c404 = "ctx0\<lparr>Error := Some boom, Status := 404\<rparr>"
  let ?x404 = "ctxXml\<lparr>Error := Some boom, Status := 404\<rparr>"
  have s: "responseSerializer jsonOnly (ResponseFormat ctx0) = Inr jsonSerializer"
    by (simp add: ctx0_def jsonOnly_def)
  have x: "responseSerializer jsonOnly (ResponseFormat ctxXml) = Inl (UnsupportedFormat ''xml'')"
    by (simp add: ctxXml_def ctx0_def jsonOnly_def)
  have d: "Decode (JsonValue (JObject [])) = Inr Map.empty"
    by (rule Decode_empty_object)
  have f: "failingCreate ctx0 Map.empty (Version ctx0) 0
     = Returns ((NilResource, Some boom), 1)"
    by (simp add: failingCreate_def)
  from s have s201: "responseSerializer jsonOnly (ResponseFormat ?c201) = Inr jsonSerializer
      \<and> Error ?c201 = Some boom" by simp
  from s have s404: "responseSerializer jsonOnly (ResponseFormat ?c404) = Inr jsonSerializer
      \<and> Error ?c404 = Some boom" by simp
  from x have x404: "responseSerializer jsonOnly (ResponseFormat ?x404)
      = Inl (UnsupportedFormat ''xml'')" by simp
  from C1_error_dispatch [where h = jsonOnly and ctx = ?c201 and w = "[]",
      THEN conjunct1, THEN mp, OF s201]
  have 1: "sendResponse jsonOnly [] ?c201 = [ErrorResponse jsonSerializer boom 500]"
    by simp
  from C1_error_dispatch [where h = jsonOnly and ctx = ?c404 and w = "[]",
      THEN conjunct1, THEN mp, OF s404]
  have 2: "sendResponse jsonOnly [] ?c404 = [ErrorResponse jsonSerializer boom 404]"
    by simp
  from C1_error_dispatch [where h = jsonOnly and ctx = ?x404 and w = "[]",
      THEN conjunct2, THEN conjunct1, THEN mp, OF x404]
  have 3: "sendResponse jsonOnly [] ?x404
      = [ErrorResponse jsonSerializer (UnsupportedFormat ''xml'') 501]"
    by simp
  from C1_error_dispatch [where h = jsonOnly and ctx = ctx0 and w = "[]"
      and body = "JsonValue (JObject [])" and payload = Map.empty
      and createFunc = failingCreate and s = 0 and s' = 1 and resource = NilResource
      and e' = boom, THEN conjunct2, THEN conjunct2] d f s
  have 4: "handleCreate jsonOnly failingCreate [] ctx0 (JsonValue (JObject [])) 0
     = Returns ([ErrorResponse jsonSerializer boom 500], 1)" by simp
  from s 1 2 x 3 d f 4 show ?thesis by blast
qed

text \<open>
  C1 as stated fails where the requested format has no serializer: the create operation
  returns \<^verbatim>\<open>(nil, boom)\<close> for a request asking for XML, and the response ends at status
  501, not 500.
\<close>

theorem C1_counterexample:
  "failingCreate ctxXml Map.empty (Version ctxXml) 0 = Returns ((NilResource, Some boom), 1)
   \<and> handleCreate jsonOnly failingCreate [] ctxXml (JsonValue (JObject [])) 0
     = Returns ([ErrorResponse jsonSerializer (UnsupportedFormat ''xml'') 501], 1)"
  by (simp add: handleCreate_def dispatch_def handleCreate_context_def sendResponse_def
      resolveSerializer_def sendErrorResponse_def context_defs http_status_defs
      failingCreate_def ctx0_def ctxXml_def jsonOnly_def maxNestingDepth_def)

subsection \<open>C2: the default success status\<close>

text \<open>
  C2. Whenever the body decodes (create, update) or the verb has no body (read, read-list,
  delete), and the operation returns, the context handed to dispatch carries the verb's
  default status, 201 for create and 200 for the other four, whatever error the operation
  returned; the error it returned is in the same context (create keeps the context's
  error when the operation returned nil).
\<close>

theorem C2_default_status:
  "(Decode body = Inr payload \<and>
      createFunc ctx payload (Version ctx) s = Returns ((resource, err), s') \<longrightarrow>
    (\<exists>ctx'. handleCreate_context createFunc ctx body s = Returns (ctx', s') \<and>
       Status ctx' = 201 \<and> Error ctx' = (if err \<noteq> None then err else Error ctx)))
   \<and> (readFunc ctx (ResourceId ctx) (Version ctx) s = Returns ((resource, err), s') \<longrightarrow>
    (\<exists>ctx'. handleRead_context readFunc ctx s = Returns (ctx', s') \<and>
       Status ctx' = 200 \<and> Error ctx' = err))
   \<and> (readListFunc ctx (Limit ctx) (Version ctx) s = Returns ((resources, cursor, err), s') \<longrightarrow>
    (\<exists>ctx'. handleReadList_context readListFunc ctx s = Returns (ctx', s') \<and>
       Status ctx' = 200 \<and> Error ctx' = err))
   \<and> (Decode body = Inr payload \<and>
      updateFunc ctx (ResourceId ctx) payload (Version ctx) s = Returns ((resource, err), s') \<longrightarrow>
    (\<exists>ctx'. handleUpdate_context updateFunc ctx body s = Returns (ctx', s') \<and>
       Status ctx' = 200 \<and> Error ctx' = err))
   \<and> (deleteFunc ctx (ResourceId ctx) (Version ctx) s = Returns ((resource, err), s') \<longrightarrow>
    (\<exists>ctx'. handleDelete_context deleteFunc ctx s = Returns (ctx', s') \<and>
       Status ctx' = 200 \<and> Error ctx' = err))"
  by (simp add: handleCreate_context_returned handleRead_context_returned
      handleReadList_context_returned handleUpdate_context_returned
      handleDelete_context_returned)

text \<open>
  The theorem at operations that all return the error \<open>boom\<close>: each context handed to
  dispatch carries the success status and the error together.
\<close>

theorem C2_default_status_witness:
  "Decode (JsonValue (JObject [])) = Inr Map.empty
   \<and> (\<exists>ctx'. handleCreate_context failingCreate ctx0 (JsonValue (JObject [])) 0
               = Returns (ctx', 1) \<and> Status ctx' = 201 \<and> Error ctx' = Some boom)
   \<and> (\<exists>ctx'. handleRead_context failingRead ctx0 0 = Returns (ctx', 1) \<and>
         Status ctx' = 200 \<and> Error ctx' = Some boom)
   \<and> (\<exists>ctx'. handleReadList_context failingReadList ctx0 0 = Returns (ctx', 1) \<and>
         Status ctx' = 200 \<and> Error ctx' = Some boom)
   \<and> (\<exists>ctx'. handleUpdate_context failingUpdate ctx0 (JsonValue (JObject [])) 0
               = Returns (ctx', 1) \<and> Status ctx' = 200 \<and> Error ctx' = Some boom)
   \<and> (\<exists>ctx'. handleDelete_context failingRead ctx0 0 = Returns (ctx', 1) \<and>
         Status ctx' = 200 \<and> Error ctx' = Some boom)"
  using C2_default_status [where ctx = ctx0 and body = "JsonValue (JObject [])"
      and payload = Map.empty and s = 0 and s' = 1 and resource = NilResource
      and err = "Some boom" and resources = "[]" and cursor = "[]"
      and createFunc = failingCreate and readFunc = failingRead
      and readListFunc = failingReadList and updateFunc = failingUpdate
      and deleteFunc = failingRead]
  by (simp add: Decode_empty_object failingCreate_def failingRead_def failingReadList_def
      failingUpdate_def del: Decode.simps)

subsection \<open>C3: an unregistered format\<close>

text \<open>
  C3. When the lookup finds no serializer for the requested format and returns its
  unsupported-format error, dispatch writes exactly one response: that error, through
  the JSON serializer, at status 501, whatever result, error and status the context
  carried. The same holds at the end of each of the five handlers, whatever the
  operation returned and whether or not the body decoded.
\<close>

theorem C3_unregistered_format:
  "responseSerializer h (ResponseFormat ctx) = Inl err \<Longrightarrow>
   sendResponse h w ctx = w @ [ErrorResponse jsonSerializer err 501]
   \<and> (handleCreate_context createFunc ctx body s = Returns (ctx', s') \<longrightarrow>
        handleCreate h createFunc w ctx body s =
          Returns (w @ [ErrorResponse jsonSerializer err 501], s'))
   \<and> (handleRead_context readFunc ctx s = Returns (ctx', s') \<longrightarrow>
        handleRead h readFunc w ctx s =
          Returns (w @ [ErrorResponse jsonSerializer err 501], s'))
   \<and> (handleReadList_context readListFunc ctx s = Returns (ctx', s') \<longrightarrow>
        handleReadList h readListFunc w ctx s =
          Returns (w @ [ErrorResponse jsonSerializer err 501], s'))
   \<and> (handleUpdate_context updateFunc ctx body s = Returns (ctx', s') \<longrightarrow>
        handleUpdate h updateFunc w ctx body s =
          Returns (w @ [ErrorResponse jsonSerializer err 501], s'))
   \<and> (handleDelete_context deleteFunc ctx s = Returns (ctx', s') \<longrightarrow>
        handleDelete h deleteFunc w ctx s =
          Returns (w @ [ErrorResponse jsonSerializer err 501], s'))"
proof (intro conjI impI)
  assume n: "responseSerializer h (ResponseFormat ctx) = Inl err"
  show "sendResponse h w ctx = w @ [ErrorResponse jsonSerializer err 501]"
    using n by (rule sendResponse_unregistered)
  {
    assume c: "handleCreate_context createFunc ctx body s = Returns (ctx', s')"
    from handleCreate_context_format [OF c] n
    have "responseSerializer h (ResponseFormat ctx') = Inl err" by simp
    from dispatch_unregistered [OF this, of w s'] c handleCreate_context_format [OF c]
    show "handleCreate h createFunc w ctx body s =
          Returns (w @ [ErrorResponse jsonSerializer err 501], s')"
      by (simp add: handleCreate_def)
  }
  {
    assume c: "handleRead_context readFunc ctx s = Returns (ctx', s')"
    from handleRead_context_format [OF c] n
    have "responseSerializer h (ResponseFormat ctx') = Inl err" by simp
    from dispatch_unregistered [OF this, of w s'] c handleRead_context_format [OF c]
    show "handleRead h readFunc w ctx s =
          Returns (w @ [ErrorResponse jsonSerializer err 501], s')"
      by (simp add: handleRead_def)
  }
  {
    assume c: "handleReadList_context readListFunc ctx s = Returns (ctx', s')"
    from handleReadList_context_format [OF c] n
    have "responseSerializer h (ResponseFormat ctx') = Inl err" by simp
    from dispatch_unregistered [OF this, of w s'] c handleReadList_context_format [OF c]
    show "handleReadList h readListFunc w ctx s =
          Returns (w @ [ErrorResponse jsonSerializer err 501], s')"
      by (simp add: handleReadList_def)
  }
  {
    assume c: "handleUpdate_context updateFunc ctx body s = Returns (ctx', s')"
    from handleUpdate_context_format [OF c] n
    have "responseSerializer h (ResponseFormat ctx') = Inl err" by simp
    from dispatch_unregistered [OF this, of w s'] c handleUpdate_context_format [OF c]
    show "handleUpdate h updateFunc w ctx body s =
          Returns (w @ [ErrorResponse jsonSerializer err 501], s')"
      by (simp add: handleUpdate_def)
  }
  {
    assume c: "handleDelete_context deleteFunc ctx s = Returns (ctx', s')"
    from handleDelete_context_format [OF c] n
    have "responseSerializer h (ResponseFormat ctx') = Inl err" by simp
    from dispatch_unregistered [OF this, of w s'] c handleDelete_context_format [OF c]
    show "handleDelete h deleteFunc w ctx s =
          Returns (w @ [ErrorResponse jsonSerializer err 501], s')"
      by (simp add: handleDelete_def)
  }
qed

text \<open>
  The theorem at a request for XML with only JSON registered: a context that recorded a
  result at status 200 and no error, a create that succeeds and a read that fails all
  end in the JSON-serialized unsupported-format error at 501.
\<close>

theorem C3_unregistered_format_witness:
  "responseSerializer jsonOnly (ResponseFormat (ctxXml\<lparr>Status := 200\<rparr>))
     = Inl (UnsupportedFormat ''xml'')
   \<and> sendResponse jsonOnly [] (ctxXml\<lparr>Status := 200\<rparr>)
       = [ErrorResponse jsonSerializer (UnsupportedFormat ''xml'') 501]
   \<and> handleCreate jsonOnly okCreate [] (ctxXml\<lparr>Status := 200\<rparr>) (JsonValue (JObject [])) 0
       = Returns ([ErrorResponse jsonSerializer (UnsupportedFormat ''xml'') 501], 1)
   \<and> handleRead jsonOnly failingRead [] (ctxXml\<lparr>Status := 200\<rparr>) 0
       = Returns ([ErrorResponse jsonSerializer (UnsupportedFormat ''xml'') 501], 1)"
proof -
  let ?ctx = "ctxXml\<lparr>Status := 200\<rparr>"
  have n: "responseSerializer jsonOnly (ResponseFormat ?ctx) = Inl (UnsupportedFormat ''xml'')"
    by (simp add: ctxXml_def ctx0_def jsonOnly_def)
  have c: "handleCreate_context okCreate ?ctx (JsonValue (JObject [])) 0
      = Returns (?ctx\<lparr>Result := Single (Resource ''Widget'' (JObject [(''id'', JString ''1'')])),
                   Status := 201\<rparr>, 1)"
    by (simp add: handleCreate_context_def Decode_empty_object okCreate_def context_defs
        http_status_defs del: Decode.simps)
  have r: "handleRead_context failingRead ?ctx 0
      = Returns (?ctx\<lparr>Result := Single NilResource, Error := Some boom, Status := 200\<rparr>, 1)"
    by (simp add: handleRead_context_def failingRead_def context_defs http_status_defs)
  note t = C3_unregistered_format [OF n, where w = "[]" and s = 0 and s' = 1]
  from t [THEN conjunct1]
  have 1: "sendResponse jsonOnly [] ?ctx
       = [ErrorResponse jsonSerializer (UnsupportedFormat ''xml'') 501]" by simp
  from t [THEN conjunct2, THEN conjunct1, THEN mp, OF c]
  have 2: "handleCreate jsonOnly okCreate [] ?ctx (JsonValue (JObject [])) 0
       = Returns ([ErrorResponse jsonSerializer (UnsupportedFormat ''xml'') 501], 1)" by simp
  from t [THEN conjunct2, THEN conjunct2, THEN conjunct1, THEN mp, OF r]
  have 3: "handleRead jsonOnly failingRead [] ?ctx 0
       = Returns ([ErrorResponse jsonSerializer (UnsupportedFormat ''xml'') 501], 1)" by simp
  from n 1 2 3 show ?thesis by blast
qed

subsection \<open>C4: a body that does not decode\<close>

text \<open>
  C4. When the body of a create or update request fails to decode, the context handed to
  dispatch is the fresh context with its error set to the decode error and its status set
  to 500, and the world of the operation is the one the handler started in. The equation
  holds for every operation function, among them one that panics and one that counts
  its calls, and its right-hand side does not mention the operation: the operation is
  not invoked.
\<close>

theorem C4_decode_failure:
  "Decode body = Inl e \<Longrightarrow>
   handleCreate_context createFunc ctx body s
     = Returns (ctx\<lparr>Error := Some e, Status := 500\<rparr>, s)
   \<and> handleUpdate_context updateFunc ctx body s
     = Returns (ctx\<lparr>Error := Some e, Status := 500\<rparr>, s)"
  by (simp add: decode_failure_create decode_failure_update)

text \<open>
  The theorem at a malformed body and the call-counting operations: the count stays 0.
\<close>

theorem C4_decode_failure_witness:
  "Decode (Malformed ''unexpected EOF'') = Inl (SyntaxError ''unexpected EOF'')
   \<and> handleCreate_context failingCreate ctx0 (Malformed ''unexpected EOF'') 0
     = Returns (ctx0\<lparr>Error := Some (SyntaxError ''unexpected EOF''), Status := 500\<rparr>, 0)
   \<and> handleUpdate_context failingUpdate ctx0 (Malformed ''unexpected EOF'') 0
     = Returns (ctx0\<lparr>Error := Some (SyntaxError ''unexpected EOF''), Status := 500\<rparr>, 0)"
proof -
  have d: "Decode (Malformed ''unexpected EOF'') = Inl (SyntaxError ''unexpected EOF'')"
    by simp
  from d C4_decode_failure [OF d, of failingCreate ctx0 0 failingUpdate]
  show ?thesis by simp
qed

subsection \<open>C5: the URI getters of the proxy\<close>

text \<open>
  C5, as the code has it. Each of the five URI getters of the proxy returns the wrapped
  handler's own URI, unmodified, whenever that URI is non-empty. Otherwise, for a handler
  whose resource name is non-empty, it returns the convention default built from that
  name: \<^verbatim>\<open>/api/v{version:[^/]+}/name\<close> for create and read-list, and
  \<^verbatim>\<open>/api/v{version:[^/]+}/name/{resource_id}\<close> for read, update and delete.
\<close>

theorem C5_uri_getters:
  "(CreateURI r \<noteq> [] \<longrightarrow> proxy_CreateURI r = Returns (CreateURI r))
   \<and> (ReadURI r \<noteq> [] \<longrightarrow> proxy_ReadURI r = Returns (ReadURI r))
   \<and> (ReadListURI r \<noteq> [] \<longrightarrow> proxy_ReadListURI r = Returns (ReadListURI r))
   \<and> (UpdateURI r \<noteq> [] \<longrightarrow> proxy_UpdateURI r = Returns (UpdateURI r))
   \<and> (DeleteURI r \<noteq> [] \<longrightarrow> proxy_DeleteURI r = Returns (DeleteURI r))
   \<and> (ResourceName r \<noteq> [] \<longrightarrow>
        (CreateURI r = [] \<longrightarrow>
           proxy_CreateURI r = Returns (''/api/v{version:[^/]+}/'' @ ResourceName r))
      \<and> (ReadListURI r = [] \<longrightarrow>
           proxy_ReadListURI r = Returns (''/api/v{version:[^/]+}/'' @ ResourceName r))
      \<and> (ReadURI r = [] \<longrightarrow>
           proxy_ReadURI r =
             Returns (''/api/v{version:[^/]+}/'' @ ResourceName r @ ''/{resource_id}''))
      \<and> (UpdateURI r = [] \<longrightarrow>
           proxy_UpdateURI r =
             Returns (''/api/v{version:[^/]+}/'' @ ResourceName r @ ''/{resource_id}''))
      \<and> (DeleteURI r = [] \<longrightarrow>
           proxy_DeleteURI r =
             Returns (''/api/v{version:[^/]+}/'' @ ResourceName r @ ''/{resource_id}'')))"
  by (simp add: proxy_CreateURI_def proxy_ReadURI_def proxy_ReadListURI_def
      proxy_UpdateURI_def proxy_DeleteURI_def proxy_ResourceName_def Sprintf_plural_def
      Sprintf_singular_def versionKey_def resourceIDKey_def)

text \<open>
  The theorem at a handler that sets every URI (and has no name), and at the handler
  named \<^verbatim>\<open>widgets\<close> that sets none.
\<close>

theorem C5_uri_getters_witness:
  "proxy_CreateURI customHandler = Returns ''/things''
   \<and> proxy_ReadURI customHandler = Returns ''/things/{id}''
   \<and> proxy_ReadListURI customHandler = Returns ''/things/all''
   \<and> proxy_UpdateURI customHandler = Returns ''/things/{id}/edit''
   \<and> proxy_DeleteURI customHandler = Returns ''/things/{id}/remove''
   \<and> proxy_CreateURI widgetHandler = Returns ''/api/v{version:[^/]+}/widgets''
   \<and> proxy_ReadListURI widgetHandler = Returns ''/api/v{version:[^/]+}/widgets''
   \<and> proxy_ReadURI widgetHandler = Returns ''/api/v{version:[^/]+}/widgets/{resource_id}''
   \<and> proxy_UpdateURI widgetHandler = Returns ''/api/v{version:[^/]+}/widgets/{resource_id}''
   \<and> proxy_DeleteURI widgetHandler = Returns ''/api/v{version:[^/]+}/widgets/{resource_id}''"
  using C5_uri_getters [of customHandler] C5_uri_getters [of widgetHandler]
  by (simp add: customHandler_def widgetHandler_def BaseResourceHandler_def)

text \<open>
  C5 as stated fails at a handler without a name that leaves \<^verbatim>\<open>CreateURI\<close> unset: the
  getter of the proxy does not return a default, it panics in \<^verbatim>\<open>ResourceName\<close>.
\<close>

theorem C5_counterexample:
  "CreateURI BaseResourceHandler = []
   \<and> proxy_CreateURI BaseResourceHandler
       = Panics ''ResourceHandler must implement ResourceName()''"
  by (simp add: proxy_CreateURI_def proxy_ResourceName_def BaseResourceHandler_def)

subsection \<open>C6: a handler without a name\<close>

text \<open>
  C6 at the base handler, whose name is empty and whose URIs are unset: the name getter of
  the proxy and four of its URI getters panic, but \<^verbatim>\<open>DeleteURI\<close> returns a route whose
  resource-name segment is empty.
\<close>

theorem C6_delete_uri_empty_name:
  "ResourceName BaseResourceHandler = []
   \<and> proxy_ResourceName BaseResourceHandler
       = Panics ''ResourceHandler must implement ResourceName()''
   \<and> proxy_CreateURI BaseResourceHandler
       = Panics ''ResourceHandler must implement ResourceName()''
   \<and> proxy_ReadURI BaseResourceHandler
       = Panics ''ResourceHandler must implement ResourceName()''
   \<and> proxy_ReadListURI BaseResourceHandler
       = Panics ''ResourceHandler must implement ResourceName()''
   \<and> proxy_UpdateURI BaseResourceHandler
       = Panics ''ResourceHandler must implement ResourceName()''
   \<and> proxy_DeleteURI BaseResourceHandler = Returns ''/api/v{version:[^/]+}//{resource_id}''"
  by (simp add: proxy_CreateURI_def proxy_ReadURI_def proxy_ReadListURI_def
      proxy_UpdateURI_def proxy_DeleteURI_def proxy_ResourceName_def
      Sprintf_singular_def versionKey_def resourceIDKey_def BaseResourceHandler_def)

subsection \<open>C7: the type tag of the rules\<close>

lemma stampRules_length: "length (stampRules r rules) = length rules"
  by (induction rules) simp_all

lemma stampRules_tag:
  "rule \<in> set (stampRules r rules) \<Longrightarrow> resourceType rule = reflect_TypeOf (EmptyResource r)"
  by (induction rules) auto

text \<open>
  C7, as the code has it. For every wrapped handler with non-empty rules, \<^verbatim>\<open>Rules()\<close> of
  the proxy returns, without failing, as many rules as the handler has, and every one of
  them carries as its type tag the type of the value \<^verbatim>\<open>EmptyResource()\<close> returns: the
  static type of the representative resource when that value is non-nil, and the nil
  type when it is nil.
\<close>

theorem C7_rules_tagged:
  "Rules r \<noteq> [] \<Longrightarrow>
   \<exists>rs. proxy_Rules r = Returns rs \<and> rs \<noteq> [] \<and> length rs = length (Rules r)
     \<and> (\<forall>rule \<in> set rs.
          resourceType rule =
            (case EmptyResource r of NilResource \<Rightarrow> None | Resource t c \<Rightarrow> Some t))"
proof -
  assume n: "Rules r \<noteq> []"
  have t: "reflect_TypeOf (EmptyResource r) =
       (case EmptyResource r of NilResource \<Rightarrow> None | Resource t c \<Rightarrow> Some t)"
    by (cases "EmptyResource r") simp_all
  have l: "length (stampRules r (Rules r)) = length (Rules r)"
    by (rule stampRules_length)
  with n have "stampRules r (Rules r) \<noteq> []" by (metis length_0_conv)
  with l t show ?thesis
    by (auto simp: proxy_Rules_def dest: stampRules_tag)
qed

text \<open>The theorem at the widget handler: its one rule comes back tagged \<^verbatim>\<open>Widget\<close>.\<close>

theorem C7_rules_tagged_witness:
  "Rules widgetHandler \<noteq> []
   \<and> EmptyResource widgetHandler = Resource ''Widget'' (JObject [])
   \<and> proxy_Rules widgetHandler = Returns [widgetRule\<lparr>resourceType := Some ''Widget''\<rparr>]"
proof -
  have n: "Rules widgetHandler \<noteq> []"
    by (simp add: widgetHandler_def)
  from C7_rules_tagged [OF n] n show ?thesis
    by (simp add: proxy_Rules_def widgetHandler_def BaseResourceHandler_def)
qed

text \<open>
  C7 as stated fails at a handler with one rule whose \<^verbatim>\<open>EmptyResource()\<close> is nil: the
  proxy raises nothing and returns the rule with the nil type as its tag.
\<close>

theorem C7_counterexample:
  "Rules untypedHandler = [widgetRule]
   \<and> EmptyResource untypedHandler = NilResource
   \<and> proxy_Rules untypedHandler = Returns [widgetRule\<lparr>resourceType := None\<rparr>]"
  by (simp add: proxy_Rules_def untypedHandler_def widgetHandler_def BaseResourceHandler_def)

subsection \<open>C8: the stubs of the base handlers\<close>

text \<open>
  C8, as the code has it. Every CRUD stub of \<^verbatim>\<open>BaseResourceHandler\<close> of package
  \<^verbatim>\<open>rest\<close> returns, for every argument, a nil result and an error of the
  \<^verbatim>\<open>NotImplemented\<close> kind, and does not panic; every CRUD stub of
  \<^verbatim>\<open>BaseResourceHandler\<close> of package \<^verbatim>\<open>server\<close> panics with a "not implemented"
  message. A missing resource name is no error of a request: the stub of package
  \<^verbatim>\<open>rest\<close> returns the empty name, at which \<^verbatim>\<open>ResourceName()\<close> of the proxy panics when
  it is called, and the stub of package \<^verbatim>\<open>server\<close> panics itself.
\<close>

theorem C8_stubs:
  "rest_CreateResource ctx payload version
     = Returns (NilResource, Some (NotImplemented ''CreateResource is not implemented''))
   \<and> rest_ReadResourceList ctx limit cursor version
     = Returns ([], [], Some (NotImplemented ''ReadResourceList not implemented''))
   \<and> rest_ReadResource ctx ident version
     = Returns (NilResource, Some (NotImplemented ''ReadResource not implemented''))
   \<and> rest_UpdateResource ctx ident payload version
     = Returns (NilResource, Some (NotImplemented ''UpdateResource not implemented''))
   \<and> rest_DeleteResource ctx ident version
     = Returns (NilResource, Some (NotImplemented ''DeleteResource not implemented''))
   \<and> server_CreateResource ctx payload version = Panics ''CreateResource not implemented''
   \<and> server_ReadResourceList ctx limit version = Panics ''ReadResourceList not implemented''
   \<and> server_ReadResource ctx ident version = Panics ''ReadResource not implemented''
   \<and> server_UpdateResource ctx ident payload version
     = Panics ''UpdateResource not implemented''
   \<and> server_DeleteResource ctx ident version = Panics ''DeleteResource not implemented''
   \<and> ResourceName BaseResourceHandler = []
   \<and> proxy_ResourceName BaseResourceHandler
     = Panics ''ResourceHandler must implement ResourceName()''
   \<and> server_ResourceName = Panics ''ResourceName not implemented''"
  by (simp add: rest_CreateResource_def rest_ReadResourceList_def rest_ReadResource_def
      rest_UpdateResource_def rest_DeleteResource_def server_CreateResource_def
      server_ReadResourceList_def server_ReadResource_def server_UpdateResource_def
      server_DeleteResource_def server_ResourceName_def proxy_ResourceName_def
      BaseResourceHandler_def)

text \<open>
  C8 as stated fails at the stubs of package \<^verbatim>\<open>server\<close>: invoking the un-overridden
  create operation panics, and a handler built on it panics with it before any response
  is written.
\<close>

theorem C8_counterexample:
  "server_CreateResource ctx0 Map.empty ''1'' = Panics ''CreateResource not implemented''
   \<and> handleCreate jsonOnly stubCreate [] ctx0 (JsonValue (JObject [])) 0
       = Panics ''CreateResource not implemented''"
  by (simp add: server_CreateResource_def stubCreate_def handleCreate_def dispatch_def
      handleCreate_context_def maxNestingDepth_def)

subsection \<open>C9: one write per dispatch\<close>

text \<open>
  C9. Response dispatch appends exactly one response to what was written before; it is an
  error response exactly when the lookup finds no serializer for the requested format or
  the context carries an error, and a success response otherwise.
\<close>

theorem C9_one_write:
  "\<exists>r. sendResponse h w ctx = w @ [r] \<and>
        isErrorResponse r =
          ((\<exists>err. responseSerializer h (ResponseFormat ctx) = Inl err) \<or>
           (\<exists>e. Error ctx = Some e))"
proof (cases "responseSerializer h (ResponseFormat ctx)")
  case (Inl err)
  from sendResponse_unregistered [OF Inl, of w] Inl show ?thesis
    by (simp add: isErrorResponse_def)
next
  case (Inr ser)
  show ?thesis
  proof (cases "Error ctx")
    case None
    from sendResponse_success [OF Inr None, of w] Inr None show ?thesis
      by (simp add: isErrorResponse_def)
  next
    case (Some e)
    from sendResponse_error [OF Inr Some, of w] Inr Some show ?thesis
      by (simp add: isErrorResponse_def)
  qed
qed

text \<open>
  The theorem at a create that succeeds: one success response at 201, and nothing else.
\<close>

theorem C9_one_write_witness:
  "sendResponse jsonOnly [] (ctx0\<lparr>Status := 201\<rparr>)
     = [SuccessResponse jsonSerializer \<lparr>data = Single NilResource, nextURL = []\<rparr> 201]
   \<and> (\<exists>r. sendResponse jsonOnly [] (ctx0\<lparr>Status := 201\<rparr>) = [r] \<and> \<not> isErrorResponse r)"
  using C9_one_write [of jsonOnly "[]" "ctx0\<lparr>Status := 201\<rparr>"]
  by (simp add: sendResponse_def resolveSerializer_def sendSuccessResponse_def
      newSuccessResponse_def NextURL_def isErrorResponse_def ctx0_def jsonOnly_def)

subsection \<open>C10: a body that is JSON but no object\<close>

text \<open>
  C10, as the code has it. A create or update request whose body is a JSON array, string,
  number or boolean takes the path of a malformed body: the decode into the string-keyed
  map fails, the context error is that decode error, the status is 500, and the
  operation is not invoked (its world is untouched, for every operation function).
\<close>

theorem C10_not_an_object:
  "v \<noteq> JNull \<Longrightarrow> \<forall>kvs. v \<noteq> JObject kvs \<Longrightarrow>
   \<exists>e. Decode (JsonValue v) = Inl e
     \<and> handleCreate_context createFunc ctx (JsonValue v) s
         = Returns (ctx\<lparr>Error := Some e, Status := 500\<rparr>, s)
     \<and> handleUpdate_context updateFunc ctx (JsonValue v) s
         = Returns (ctx\<lparr>Error := Some e, Status := 500\<rparr>, s)"
proof -
  assume "v \<noteq> JNull" and "\<forall>kvs. v \<noteq> JObject kvs"
  then obtain e where "Decode (JsonValue v) = Inl e"
    using Decode_not_object by blast
  then show ?thesis
    by (simp add: decode_failure_create decode_failure_update del: Decode.simps)
qed

text \<open>The theorem at the body \<^verbatim>\<open>[]\<close> and the call-counting operations.\<close>

theorem C10_not_an_object_witness:
  "JArray [] \<noteq> JNull \<and> JArray [] \<noteq> JObject []
   \<and> Decode (JsonValue (JArray [])) = Inl (UnmarshalTypeError ''array'')
   \<and> handleCreate_context failingCreate ctx0 (JsonValue (JArray [])) 0
       = Returns (ctx0\<lparr>Error := Some (UnmarshalTypeError ''array''), Status := 500\<rparr>, 0)
   \<and> handleUpdate_context failingUpdate ctx0 (JsonValue (JArray [])) 0
       = Returns (ctx0\<lparr>Error := Some (UnmarshalTypeError ''array''), Status := 500\<rparr>, 0)"
proof -
  have a: "JArray [] \<noteq> JNull" by simp
  have b: "\<forall>kvs. JArray [] \<noteq> JObject kvs" by simp
  from C10_not_an_object [OF a b, of failingCreate ctx0 0 failingUpdate]
  show ?thesis by (simp add: Decode_empty_array del: Decode.simps)
qed

text \<open>
  C10 as stated fails at the body \<^verbatim>\<open>null\<close>, which is valid JSON and no object: the
  decode into a map succeeds and leaves the map nil, the create operation is invoked
  (the count goes to 1), and the response is a success at 201.
\<close>

theorem C10_counterexample:
  "Decode (JsonValue JNull) = Inr Map.empty
   \<and> handleCreate jsonOnly okCreate [] ctx0 (JsonValue JNull) 0
       = Returns ([SuccessResponse jsonSerializer
                     \<lparr>data = Single (Resource ''Widget'' (JObject [(''id'', JString ''1'')])),
                      nextURL = []\<rparr> 201], 1)"
  by (simp add: handleCreate_def dispatch_def handleCreate_context_def sendResponse_def
      resolveSerializer_def sendSuccessResponse_def newSuccessResponse_def NextURL_def
      context_defs http_status_defs okCreate_def ctx0_def jsonOnly_def
      maxNestingDepth_def)

end
